theory Spec2Isabelle
  imports Complex_Main "HOL-Library.Sublist" "HOL-Library.Word"
begin

section \<open>Data frames\<close>

text \<open>
  The benchmark notebook \<^verbatim>\<open>examples/demo4 (performance).ipynb\<close> contains one function,
  \<^verbatim>\<open>overPop(df, times)\<close>, working on a pandas data frame:
  \<^verbatim>\<open>
  def overPop(df, times):
      df_copy = df.copy()
      for i in range(times):
          df_copy = df_copy.append(df_copy, ignore_index=True)

      rows = df_copy.shape[0]
      # create random positions
      x = np.random.random_sample((rows,))*15
      y = np.random.random_sample((rows,))*15
      # assign poistions to objects in catalog
      df_copy['ra'] = x
      df_copy['dec'] = y

      return df_copy
  \<close>
  A data frame is stored by column: a row index (one label per row) and an ordered list of
  named columns, each holding one cell per row.
\<close>

datatype 'l label = RangeLabel nat | UserLabel 'l

text \<open>
  A cell is a finite double (given by its exact rational value), the missing value that
  pandas fills in, or any other object.
\<close>

datatype 'a cell = Float64 rat | NaN | Obj 'a

record ('l, 'a) dataframe =
  index :: "'l label list"
  columns :: "(string \<times> 'a cell list) list"

text \<open>\<^verbatim>\<open>df.shape[0]\<close>: the number of rows is the length of the index.\<close>

definition shape0 :: "('l, 'a) dataframe \<Rightarrow> nat" where
  "shape0 d = length (index d)"

text \<open>
  The invariant pandas keeps for a frame: every column has one cell per index entry.
  Column labels may repeat.
\<close>

definition column_ok :: "nat \<Rightarrow> string \<times> 'a cell list \<Rightarrow> bool" where
  "column_ok n col = (length (snd col) = n)"

definition wf_frame :: "('l, 'a) dataframe \<Rightarrow> bool" where
  "wf_frame d = list_all (column_ok (shape0 d)) (columns d)"

text \<open>Row \<open>i\<close> of a frame: the cell of every column at position \<open>i\<close>, in column order.\<close>

definition row_at :: "('l, 'a) dataframe \<Rightarrow> nat \<Rightarrow> (string \<times> 'a cell) list" where
  "row_at d i = map (\<lambda>col. (fst col, snd col ! i)) (columns d)"

definition rows_of :: "('l, 'a) dataframe \<Rightarrow> (string \<times> 'a cell) list list" where
  "rows_of d = map (row_at d) [0 ..< shape0 d]"

text \<open>
  \<^verbatim>\<open>d.append(other, ignore_index=True)\<close> builds a new frame: the rows of \<open>d\<close> followed by
  the rows of \<open>other\<close>, with the row index renumbered from zero. When both operands carry
  the same column labels in the same order (in \<^verbatim>\<open>overPop\<close> they are the same frame),
  pandas joins them column by column, also where a label repeats. Otherwise columns are
  matched by label, and a label one operand lacks is filled with the missing value.
\<close>

definition append_ignore_index ::
  "('l, 'a) dataframe \<Rightarrow> ('l, 'a) dataframe \<Rightarrow> ('l, 'a) dataframe" where
  "append_ignore_index d other =
     \<lparr>index = map RangeLabel [0 ..< shape0 d + shape0 other],
      columns =
        (if map fst (columns d) = map fst (columns other)
         then map (\<lambda>(col, ocol). (fst col, snd col @ snd ocol)) (zip (columns d) (columns other))
         else map (\<lambda>col. (fst col, snd col @
                     (case map_of (columns other) (fst col) of
                        Some ys \<Rightarrow> ys
                      | None \<Rightarrow> replicate (shape0 other) NaN))) (columns d)
              @ map (\<lambda>col. (fst col, replicate (shape0 d) NaN @ snd col))
                  (filter (\<lambda>col. map_of (columns d) (fst col) = None) (columns other)))\<rparr>"

section \<open>The random generator and double arithmetic\<close>

text \<open>
  \<^verbatim>\<open>np.random.random_sample\<close> reads the process-wide Mersenne Twister. The generator state
  is represented by the sequence of 32-bit outputs it will still produce; a draw takes the
  first and leaves the rest.
\<close>

type_synonym rk_state = "nat \<Rightarrow> 32 word"

definition rk_random :: "rk_state \<Rightarrow> 32 word \<times> rk_state" where
  "rk_random g = (g 0, \<lambda>n. g (Suc n))"

text \<open>
  One double in \<open>[0, 1)\<close> with 53 random bits, as numpy's generator builds it:
  \<^verbatim>\<open>long a = rk_random(state) >> 5, b = rk_random(state) >> 6;
  return (a * 67108864.0 + b) / 9007199254740992.0;\<close>
  All three floating-point operations are exact here.
\<close>

definition rk_double :: "rk_state \<Rightarrow> rat \<times> rk_state" where
  "rk_double g =
     (let (a, g1) = rk_random g;
          (b, g2) = rk_random g1
      in (of_nat (unat (drop_bit 5 a) * 67108864 + unat (drop_bit 6 b)) / 9007199254740992, g2))"

text \<open>\<^verbatim>\<open>random_sample((n,))\<close>: \<open>n\<close> successive draws.\<close>

fun random_sample :: "nat \<Rightarrow> rk_state \<Rightarrow> rat list \<times> rk_state" where
  "random_sample 0 g = ([], g)"
| "random_sample (Suc n) g =
     (let (u, g1) = rk_double g;
          (us, g2) = random_sample n g1
      in (u # us, g2))"

text \<open>Number of binary digits of a natural number (Python's \<^verbatim>\<open>int.bit_length\<close>).\<close>

fun bit_length :: "nat \<Rightarrow> nat" where
  "bit_length n = (if n = 0 then 0 else Suc (bit_length (n div 2)))"

declare bit_length.simps [simp del]

definition pow2 :: "int \<Rightarrow> rat" where
  "pow2 i = (if 0 \<le> i then 2 ^ nat i else 1 / 2 ^ nat (- i))"

text \<open>For positive \<open>x\<close>, the integer \<open>e\<close> with \<open>2^e \<le> x < 2^(e+1)\<close>.\<close>

definition ilog2 :: "rat \<Rightarrow> int" where
  "ilog2 x =
     (if 1 \<le> x then int (bit_length (nat \<lfloor>x\<rfloor>)) - 1
      else - int (bit_length (nat \<lceil>1 / x\<rceil> - 1)))"

text \<open>Rounding to the nearest integer, ties to the even one.\<close>

definition round_even :: "rat \<Rightarrow> int" where
  "round_even y =
     (let m = \<lfloor>y\<rfloor>; f = y - of_int m
      in if 1 / 2 < f \<or> (f = 1 / 2 \<and> odd m) then m + 1 else m)"

text \<open>
  IEEE 754 binary64 rounding (round to nearest, ties to even) of an exact value below the
  overflow threshold: the result is a multiple of the unit in the last place,
  \<open>2^(e - 52)\<close> for a value in \<open>[2^e, 2^(e+1))\<close>, and \<open>2^(-1074)\<close> in the subnormal range.
\<close>

definition round_f64 :: "rat \<Rightarrow> rat" where
  "round_f64 x =
     (if x = 0 then 0
      else let a = \<bar>x\<bar>;
               u = max (ilog2 a - 52) (- 1074)
           in sgn x * of_int (round_even (a / pow2 u)) * pow2 u)"

text \<open>The product of two doubles is the rounded exact product.\<close>

definition fmul :: "rat \<Rightarrow> rat \<Rightarrow> rat" where
  "fmul x y = round_f64 (x * y)"

section \<open>Python objects and the function overPop\<close>

text \<open>
  Frames are objects: a variable holds a reference, and \<^verbatim>\<open>df_copy['ra'] = x\<close> changes
  the object in place. The state is the object store (reference to frame), the next
  unused reference and the state of numpy's generator. No statement of \<^verbatim>\<open>overPop\<close>
  raises deliberately and none tests \<^verbatim>\<open>times\<close>; the one library check on its path is
  the length check of a column assignment (\<open>ValueError\<close>). \<open>InvalidArgument\<close> is the
  error kind the specification names for a negative count; no path of the code produces it.
\<close>

datatype error = ValueError | InvalidArgument

record ('l, 'a) pystate =
  heap :: "nat \<Rightarrow> ('l, 'a) dataframe"
  next_ref :: nat
  rk :: rk_state

definition alloc :: "('l, 'a) dataframe \<Rightarrow> ('l, 'a) pystate \<Rightarrow> nat \<times> ('l, 'a) pystate" where
  "alloc d s = (next_ref s, s\<lparr>heap := (heap s)(next_ref s := d), next_ref := Suc (next_ref s)\<rparr>)"

text \<open>\<^verbatim>\<open>df.copy()\<close>: a new object with the same contents.\<close>

definition copy_df :: "nat \<Rightarrow> ('l, 'a) pystate \<Rightarrow> nat \<times> ('l, 'a) pystate" where
  "copy_df df s = alloc (heap s df) s"

text \<open>\<^verbatim>\<open>a.append(b, ignore_index=True)\<close>: a new object, neither operand is changed.\<close>

definition append_df :: "nat \<Rightarrow> nat \<Rightarrow> ('l, 'a) pystate \<Rightarrow> nat \<times> ('l, 'a) pystate" where
  "append_df a b s = alloc (append_ignore_index (heap s a) (heap s b)) s"

text \<open>
  \<^verbatim>\<open>df[c] = vs\<close> with an array \<open>vs\<close>, in three parts. A frame whose index is empty
  first takes the index \<open>0, \<dots>, len(vs) - 1\<close> of a non-empty \<open>vs\<close>, its columns
  filled with the missing value.
\<close>

definition ensure_valid_index :: "'a cell list \<Rightarrow> ('l, 'a) dataframe \<Rightarrow> ('l, 'a) dataframe" where
  "ensure_valid_index vs d =
     (if index d = [] \<and> vs \<noteq> []
      then \<lparr>index = map RangeLabel [0 ..< length vs],
            columns = map (\<lambda>col. (fst col, replicate (length vs) NaN)) (columns d)\<rparr>
      else d)"

text \<open>
  Every column labelled \<open>c\<close> is overwritten where it stands; if there is none, the column
  is added as the last one.
\<close>

definition set_column ::
  "string \<Rightarrow> 'a cell list \<Rightarrow> (string \<times> 'a cell list) list \<Rightarrow> (string \<times> 'a cell list) list" where
  "set_column c vs cols =
     (if c \<in> set (map fst cols)
      then map (\<lambda>col. if fst col = c then (c, vs) else col) cols
      else cols @ [(c, vs)])"

text \<open>
  pandas raises \<^verbatim>\<open>ValueError\<close> unless the array has one value per row; otherwise the
  object is changed in place.
\<close>

definition setitem ::
  "nat \<Rightarrow> string \<Rightarrow> 'a cell list \<Rightarrow> ('l, 'a) pystate \<Rightarrow> error + ('l, 'a) pystate" where
  "setitem df c vs s =
     (let d = ensure_valid_index vs (heap s df)
      in if length vs \<noteq> shape0 d then Inl ValueError
         else Inr (s\<lparr>heap := (heap s)(df := d\<lparr>columns := set_column c vs (columns d)\<rparr>)\<rparr>))"

text \<open>
  The loop \<^verbatim>\<open>for i in range(times): df_copy = df_copy.append(df_copy, ignore_index=True)\<close>,
  by the number of iterations left.
\<close>

fun duplicate :: "nat \<Rightarrow> nat \<Rightarrow> ('l, 'a) pystate \<Rightarrow> nat \<times> ('l, 'a) pystate" where
  "duplicate 0 df_copy s = (df_copy, s)"
| "duplicate (Suc n) df_copy s =
     (let (df_copy', s') = append_df df_copy df_copy s in duplicate n df_copy' s')"

text \<open>
  The first stage of \<^verbatim>\<open>overPop\<close> (the copy and the loop). \<^verbatim>\<open>range(times)\<close> is empty
  for a count \<open>ntimes \<le> 0\<close>, so the loop runs \<open>nat ntimes\<close> times.
\<close>

definition inflate :: "nat \<Rightarrow> int \<Rightarrow> ('l, 'a) pystate \<Rightarrow> nat \<times> ('l, 'a) pystate" where
  "inflate df ntimes s = (let (df_copy, s1) = copy_df df s in duplicate (nat ntimes) df_copy s1)"

text \<open>
  The second stage: two arrays of \<open>rows\<close> draws, each multiplied by 15, assigned to the
  columns \<^verbatim>\<open>ra\<close> and \<^verbatim>\<open>dec\<close> of the object \<open>df_copy\<close>, which is returned.
\<close>

definition jitter :: "nat \<Rightarrow> ('l, 'a) pystate \<Rightarrow> error + (nat \<times> ('l, 'a) pystate)" where
  "jitter df_copy s =
     (let rows = shape0 (heap s df_copy);
          (us, g1) = random_sample rows (rk s);
          x = map (\<lambda>u. Float64 (fmul u 15)) us;
          (vs, g2) = random_sample rows g1;
          y = map (\<lambda>v. Float64 (fmul v 15)) vs
      in case setitem df_copy ''ra'' x (s\<lparr>rk := g2\<rparr>) of
           Inl e \<Rightarrow> Inl e
         | Inr s1 \<Rightarrow>
             (case setitem df_copy ''dec'' y s1 of
                Inl e \<Rightarrow> Inl e
              | Inr s2 \<Rightarrow> Inr (df_copy, s2)))"

definition overPop :: "nat \<Rightarrow> int \<Rightarrow> ('l, 'a) pystate \<Rightarrow> error + (nat \<times> ('l, 'a) pystate)" where
  "overPop df ntimes s = (let (df_copy, s1) = inflate df ntimes s in jitter df_copy s1)"

text \<open>The frame a returned reference points to.\<close>

definition deref :: "nat \<times> ('l, 'a) pystate \<Rightarrow> ('l, 'a) dataframe" where
  "deref out = heap (snd out) (fst out)"

text \<open>What one pass of the loop body builds from the current frame.\<close>

definition twice :: "('l, 'a) dataframe \<Rightarrow> ('l, 'a) dataframe" where
  "twice d = append_ignore_index d d"

text \<open>The array \<^verbatim>\<open>np.random.random_sample((n,))*15\<close> drawn in generator state \<open>g\<close>.\<close>

definition positions :: "nat \<Rightarrow> rk_state \<Rightarrow> 'a cell list" where
  "positions n g = map (\<lambda>u. Float64 (fmul u 15)) (fst (random_sample n g))"


text \<open>The columns of a frame other than the two position columns, in order.\<close>

definition other_columns :: "('l, 'a) dataframe \<Rightarrow> (string \<times> 'a cell list) list" where
  "other_columns d = filter (\<lambda>col. fst col \<noteq> ''ra'' \<and> fst col \<noteq> ''dec'') (columns d)"

text \<open>
  The contents of a frame after the two column assignments of \<^verbatim>\<open>overPop\<close>, the draws
  starting in generator state \<open>g\<close>.
\<close>

definition assign_positions :: "('l, 'a) dataframe \<Rightarrow> rk_state \<Rightarrow> ('l, 'a) dataframe" where
  "assign_positions d g =
     d\<lparr>columns :=
         set_column ''dec'' (positions (shape0 d) (snd (random_sample (shape0 d) g)))
           (set_column ''ra'' (positions (shape0 d) g) (columns d))\<rparr>"

text \<open>
  A small catalog and a state holding it at reference 0, used to run the definitions on
  concrete data. Its \<^verbatim>\<open>ra\<close> column stands for position values left over from earlier.
\<close>

definition sample_catalog :: "(nat, string) dataframe" where
  "sample_catalog =
     \<lparr>index = [UserLabel 7, UserLabel 9],
      columns = [(''objid'', [Obj ''a'', Obj ''b'']), (''ra'', [NaN, Float64 1])]\<rparr>"

definition sample_state :: "(nat, string) pystate" where
  "sample_state =
     \<lparr>heap = (\<lambda>r. \<lparr>index = [], columns = []\<rparr>)(0 := sample_catalog),
      next_ref = 1,
      rk = (\<lambda>n. word_of_nat (n * 2654435761 + 3141592653))\<rparr>"

section \<open>The notebook-extension loader\<close>

text \<open>
  \<^verbatim>\<open>js/src/extension.js\<close> configures requirejs when the module is loaded and exports
  \<^verbatim>\<open>module.exports = { load_ipython_extension: function() {} };\<close>
  A JavaScript function is a parameter list and a body; the body runs in the environment
  binding the parameters and either completes normally or returns a value. A call whose
  body completes normally yields \<^verbatim>\<open>undefined\<close>.
\<close>

datatype 'v js_value = Undefined | Value 'v

datatype 'v completion = Normal | Return "'v js_value"

record ('v, 'st) js_function =
  params :: "string list"
  body :: "(string \<rightharpoonup> 'v js_value) \<Rightarrow> 'st \<Rightarrow> 'v completion \<times> 'st"

text \<open>Missing arguments are \<^verbatim>\<open>undefined\<close>, surplus arguments are not bound.\<close>

definition bind_args :: "string list \<Rightarrow> 'v js_value list \<Rightarrow> (string \<rightharpoonup> 'v js_value)" where
  "bind_args ps args = map_of (zip ps (args @ replicate (length ps - length args) Undefined))"

definition js_call ::
  "('v, 'st) js_function \<Rightarrow> 'v js_value list \<Rightarrow> 'st \<Rightarrow> 'v js_value \<times> 'st" where
  "js_call f args st =
     (case body f (bind_args (params f) args) st of
        (Normal, st') \<Rightarrow> (Undefined, st')
      | (Return v, st') \<Rightarrow> (v, st'))"

text \<open>\<^verbatim>\<open>function() {}\<close>: no parameters, an empty body.\<close>

definition load_ipython_extension :: "('v, 'st) js_function" where
  "load_ipython_extension = \<lparr>params = [], body = (\<lambda>env st. (Normal, st))\<rparr>"

section \<open>Frames: appending a frame to itself\<close>

lemma shape0_append [simp]:
  "shape0 (append_ignore_index d e) = shape0 d + shape0 e"
  by (simp add: append_ignore_index_def shape0_def)

lemma columns_append_self:
  "columns (append_ignore_index d d) = map (\<lambda>col. (fst col, snd col @ snd col)) (columns d)"
  by (simp add: append_ignore_index_def zip_same_conv_map comp_def)

lemma labels_append_self:
  "map fst (columns (append_ignore_index d d)) = map fst (columns d)"
  by (simp add: columns_append_self comp_def)

lemma wf_append_self:
  assumes "wf_frame d"
  shows "wf_frame (append_ignore_index d d)"
proof -
  have len: "length (snd col) = shape0 d" if "col \<in> set (columns d)" for col
    using assms that by (simp add: wf_frame_def list_all_iff column_ok_def)
  show ?thesis
    using len
    by (simp add: wf_frame_def columns_append_self list_all_iff column_ok_def comp_def)
qed

lemma rows_append_self:
  assumes "wf_frame d"
  shows "rows_of (append_ignore_index d d) = rows_of d @ rows_of d"
proof -
  let ?n = "shape0 d"
  have len: "length (snd col) = ?n" if "col \<in> set (columns d)" for col
    using assms that by (simp add: wf_frame_def list_all_iff column_ok_def)
  have low: "row_at (append_ignore_index d d) i = row_at d i" if "i < ?n" for i
    using that len by (simp add: row_at_def columns_append_self nth_append)
  have high: "row_at (append_ignore_index d d) (?n + i) = row_at d i" for i
    using len by (simp add: row_at_def columns_append_self nth_append)
  have "[0 ..< ?n + ?n] = [0 ..< ?n] @ [?n ..< ?n + ?n]"
    by (rule upt_add_eq_append) simp
  also have "[?n ..< ?n + ?n] = map (\<lambda>i. i + ?n) [0 ..< ?n]"
    by (rule map_add_upt [symmetric])
  finally have split: "[0 ..< ?n + ?n] = [0 ..< ?n] @ map (\<lambda>i. i + ?n) [0 ..< ?n]" .
  have "rows_of (append_ignore_index d d) =
        map (row_at (append_ignore_index d d)) [0 ..< ?n]
        @ map (\<lambda>i. row_at (append_ignore_index d d) (?n + i)) [0 ..< ?n]"
    unfolding rows_of_def shape0_append split by (simp add: comp_def add.commute)
  also have "map (row_at (append_ignore_index d d)) [0 ..< ?n] = rows_of d"
    unfolding rows_of_def by (rule map_cong) (simp_all add: low)
  also have "map (\<lambda>i. row_at (append_ignore_index d d) (?n + i)) [0 ..< ?n] = rows_of d"
    unfolding rows_of_def by (rule map_cong) (simp_all add: high)
  finally show ?thesis .
qed

section \<open>The object store under copy and append\<close>

lemma alloc_simps [simp]:
  "fst (alloc d s) = next_ref s"
  "heap (snd (alloc d s)) = (heap s)(next_ref s := d)"
  "next_ref (snd (alloc d s)) = Suc (next_ref s)"
  "rk (snd (alloc d s)) = rk s"
  by (simp_all add: alloc_def)

lemma duplicate_Suc:
  "duplicate (Suc n) r s = duplicate n (fst (append_df r r s)) (snd (append_df r r s))"
  by (simp add: case_prod_beta)

lemma append_df_simps [simp]:
  "fst (append_df a b s) = next_ref s"
  "heap (snd (append_df a b s)) = (heap s)(next_ref s := append_ignore_index (heap s a) (heap s b))"
  "next_ref (snd (append_df a b s)) = Suc (next_ref s)"
  "rk (snd (append_df a b s)) = rk s"
  by (simp_all add: append_df_def)

lemma copy_df_simps [simp]:
  "fst (copy_df df s) = next_ref s"
  "heap (snd (copy_df df s)) = (heap s)(next_ref s := heap s df)"
  "next_ref (snd (copy_df df s)) = Suc (next_ref s)"
  "rk (snd (copy_df df s)) = rk s"
  by (simp_all add: copy_df_def)

lemma duplicate_deref:
  "deref (duplicate n r s) = (twice ^^ n) (heap s r)"
proof (induction n arbitrary: r s)
  case 0
  show ?case by (simp add: deref_def)
next
  case (Suc n)
  have "deref (duplicate (Suc n) r s) = (twice ^^ n) (twice (heap s r))"
    unfolding duplicate_Suc Suc.IH by (simp add: twice_def [abs_def])
  then show ?case
    by (simp add: funpow_swap1)
qed

lemma duplicate_rk: "rk (snd (duplicate n r s)) = rk s"
proof (induction n arbitrary: r s)
  case 0
  show ?case by simp
next
  case (Suc n)
  show ?case unfolding duplicate_Suc Suc.IH by simp
qed

lemma duplicate_next_ref: "next_ref (snd (duplicate n r s)) = next_ref s + n"
proof (induction n arbitrary: r s)
  case 0
  show ?case by simp
next
  case (Suc n)
  show ?case unfolding duplicate_Suc Suc.IH by simp
qed

lemma duplicate_old_objects:
  "a < next_ref s \<Longrightarrow> heap (snd (duplicate n r s)) a = heap s a"
proof (induction n arbitrary: r s)
  case 0
  show ?case by simp
next
  case (Suc n)
  have "heap (snd (duplicate (Suc n) r s)) a = heap (snd (append_df r r s)) a"
    unfolding duplicate_Suc using Suc.prems by (intro Suc.IH) simp
  also have "\<dots> = heap s a"
    using Suc.prems by simp
  finally show ?case .
qed

lemma duplicate_ref_lower:
  "m \<le> r \<Longrightarrow> m \<le> next_ref s \<Longrightarrow> m \<le> fst (duplicate n r s)"
proof (induction n arbitrary: r s)
  case 0
  then show ?case by simp
next
  case (Suc n)
  show ?case
    unfolding duplicate_Suc using Suc.prems by (intro Suc.IH) simp_all
qed

lemma inflate_deref:
  "deref (inflate df ntimes s) = (twice ^^ nat ntimes) (heap s df)"
  by (simp add: inflate_def case_prod_beta duplicate_deref)

lemma inflate_rk: "rk (snd (inflate df ntimes s)) = rk s"
  by (simp add: inflate_def case_prod_beta duplicate_rk)

lemma inflate_old_objects:
  assumes "a < next_ref s"
  shows "heap (snd (inflate df ntimes s)) a = heap s a"
proof -
  have "heap (snd (inflate df ntimes s)) a = heap (snd (copy_df df s)) a"
    unfolding inflate_def case_prod_beta Let_def
    using assms by (intro duplicate_old_objects) simp
  also have "\<dots> = heap s a"
    using assms by simp
  finally show ?thesis .
qed

lemma inflate_fresh: "next_ref s \<le> fst (inflate df ntimes s)"
  unfolding inflate_def case_prod_beta Let_def
  by (rule duplicate_ref_lower) simp_all

lemma shape0_funpow:
  "shape0 ((twice ^^ n) d) = shape0 d * 2 ^ n"
  by (induction n) (simp_all add: twice_def)

lemma wf_funpow:
  "wf_frame d \<Longrightarrow> wf_frame ((twice ^^ n) d)"
  by (induction n) (simp_all add: wf_append_self twice_def)

lemma rows_funpow_subset:
  "wf_frame d \<Longrightarrow> set (rows_of ((twice ^^ n) d)) \<subseteq> set (rows_of d)"
  by (induction n) (simp_all add: rows_append_self wf_funpow twice_def)

lemma rows_funpow:
  assumes "wf_frame d"
  shows "rows_of ((twice ^^ n) d) = concat (replicate (2 ^ n) (rows_of d))"
proof (induction n)
  case 0
  show ?case by simp
next
  case (Suc n)
  have "rows_of ((twice ^^ Suc n) d) = rows_of ((twice ^^ n) d) @ rows_of ((twice ^^ n) d)"
    using assms by (simp add: twice_def rows_append_self wf_funpow)
  also have "\<dots> = concat (replicate (2 ^ n + 2 ^ n) (rows_of d))"
    unfolding Suc.IH by (simp add: replicate_add)
  finally show ?case by (simp add: mult_2)
qed

lemma labels_funpow:
  "map fst (columns ((twice ^^ n) d)) = map fst (columns d)"
  by (induction n) (simp_all add: twice_def labels_append_self)

lemma prefix_concat_replicate:
  "prefix xs (concat (replicate (2 ^ n) xs))"
proof -
  obtain k :: nat where "2 ^ n = Suc k"
    by (metis not0_implies_Suc power_not_zero zero_neq_numeral)
  then show ?thesis by simp
qed

section \<open>Rounding and the range of a scaled draw\<close>










section \<open>The position assignment\<close>

lemma random_sample_Suc:
  "fst (random_sample (Suc n) g) = fst (rk_double g) # fst (random_sample n (snd (rk_double g)))"
  by (simp add: case_prod_beta)

lemma length_random_sample [simp]: "length (fst (random_sample n g)) = n"
proof (induction n arbitrary: g)
  case 0
  show ?case by simp
next
  case (Suc n)
  show ?case unfolding random_sample_Suc by (simp add: Suc.IH)
qed

lemma length_positions [simp]: "length (positions n g) = n"
  by (simp add: positions_def)


lemma ensure_valid_index_same:
  "length vs = shape0 d \<Longrightarrow> ensure_valid_index vs d = d"
  by (auto simp: ensure_valid_index_def shape0_def)

lemma setitem_ok:
  "length vs = shape0 (heap s df) \<Longrightarrow>
   setitem df c vs s =
     Inr (s\<lparr>heap := (heap s)
            (df := (heap s df)\<lparr>columns := set_column c vs (columns (heap s df))\<rparr>)\<rparr>)"
  by (simp add: setitem_def ensure_valid_index_same Let_def)

lemma jitter_returns:
  fixes s :: "('l, 'a) pystate" and r :: nat
  defines "rows \<equiv> shape0 (heap s r)"
  defines "x \<equiv> positions rows (rk s)"
  defines "y \<equiv> positions rows (snd (random_sample rows (rk s)))"
  shows "\<exists>s'. jitter r s = Inr (r, s')
           \<and> heap s' = (heap s)(r := (heap s r)
                 \<lparr>columns := set_column ''dec'' y (set_column ''ra'' x (columns (heap s r)))\<rparr>)
           \<and> next_ref s' = next_ref s
           \<and> rk s' = snd (random_sample rows (snd (random_sample rows (rk s))))"
  unfolding jitter_def Let_def case_prod_beta rows_def x_def y_def positions_def
  by (simp add: setitem_ok shape0_def)

lemma overPop_returns:
  fixes s :: "('l, 'a) pystate" and df :: nat and ntimes :: int
  defines "mid \<equiv> inflate df ntimes s"
  defines "rows \<equiv> shape0 (deref mid)"
  shows "\<exists>s'. overPop df ntimes s = Inr (fst mid, s')
           \<and> heap s' = (heap (snd mid))(fst mid := assign_positions (deref mid) (rk s))
           \<and> next_ref s' = next_ref (snd mid)
           \<and> rk s' = snd (random_sample rows (snd (random_sample rows (rk s))))"
  using jitter_returns [of "fst mid" "snd mid"]
  unfolding overPop_def Let_def case_prod_beta mid_def rows_def deref_def inflate_rk
    assign_positions_def
  by simp

lemma overPop_deref:
  "\<exists>out. overPop df ntimes s = Inr out
      \<and> deref out = assign_positions (deref (inflate df ntimes s)) (rk s)"
proof -
  obtain s' where "overPop df ntimes s = Inr (fst (inflate df ntimes s), s')"
    and "heap s' = (heap (snd (inflate df ntimes s)))
           (fst (inflate df ntimes s) := assign_positions (deref (inflate df ntimes s)) (rk s))"
    using overPop_returns [of df ntimes s] by blast
  then show ?thesis by (simp add: deref_def)
qed

lemma other_columns_update:
  assumes "c = ''ra'' \<or> c = ''dec''"
  shows "filter (\<lambda>col. fst col \<noteq> ''ra'' \<and> fst col \<noteq> ''dec'') (set_column c vs cols)
         = filter (\<lambda>col. fst col \<noteq> ''ra'' \<and> fst col \<noteq> ''dec'') cols"
proof -
  have "filter (\<lambda>col. fst col \<noteq> ''ra'' \<and> fst col \<noteq> ''dec'')
          (map (\<lambda>col. if fst col = c then (c, vs) else col) cols)
        = filter (\<lambda>col. fst col \<noteq> ''ra'' \<and> fst col \<noteq> ''dec'') cols"
    using assms by (induction cols) auto
  then show ?thesis
    using assms by (auto simp: set_column_def)
qed

lemma map_of_overwrite:
  "map_of (map (\<lambda>col. if fst col = c then (c, vs) else col) cols) k
   = (if k = c \<and> map_of cols c \<noteq> None then Some vs else map_of cols k)"
proof (induction cols)
  case Nil
  show ?case by simp
next
  case (Cons col cols)
  show ?case
  proof (cases "fst col = c")
    case True
    then show ?thesis using Cons.IH by (cases col) simp
  next
    case False
    then show ?thesis using Cons.IH by (cases col) auto
  qed
qed

lemma map_of_set_column:
  "map_of (set_column c vs cols) k = (if k = c then Some vs else map_of cols k)"
proof (cases "c \<in> set (map fst cols)")
  case True
  then have "map_of cols c \<noteq> None"
    by (simp add: map_of_eq_None_iff)
  with True show ?thesis
    by (simp add: set_column_def map_of_overwrite)
next
  case False
  then have "map_of cols c = None"
    by (simp add: map_of_eq_None_iff)
  with False show ?thesis
    by (auto simp: set_column_def map_add_def split: option.splits)
qed

lemma assign_positions_simps:
  "index (assign_positions d g) = index d"
  "shape0 (assign_positions d g) = shape0 d"
  "other_columns (assign_positions d g) = other_columns d"
  "map_of (columns (assign_positions d g)) ''ra'' = Some (positions (shape0 d) g)"
  "map_of (columns (assign_positions d g)) ''dec''
     = Some (positions (shape0 d) (snd (random_sample (shape0 d) g)))"
  by (simp_all add: assign_positions_def shape0_def other_columns_def other_columns_update
      map_of_set_column)

section \<open>A run on the sample catalog\<close>

lemma wf_sample_catalog: "wf_frame sample_catalog"
  by (simp add: wf_frame_def sample_catalog_def column_ok_def shape0_def)

lemma sample_products:
  "fmul (6588397311615359 / 9007199254740992) 15 = 6176622479639399 / 562949953421312"
  "fmul (8714708598627661 / 9007199254740992) 15 = 1021254913901679 / 70368744177664"
  "fmul (1833820630898971 / 9007199254740992) 15 = 6876827365871141 / 2251799813685248"
  "fmul (495016481350301 / 1125899906842624) 15 = 7425247220254515 / 1125899906842624"
  by code_simp+

lemma sample_run:
  "overPop 0 0 sample_state =
     Inr (1, sample_state\<lparr>heap := (heap sample_state)(1 :=
                   \<lparr>index = [UserLabel 7, UserLabel 9],
                    columns = [(''objid'', [Obj ''a'', Obj ''b'']),
                               (''ra'', [Float64 (6176622479639399 / 562949953421312),
                                         Float64 (1021254913901679 / 70368744177664)]),
                               (''dec'', [Float64 (6876827365871141 / 2251799813685248),
                                          Float64 (7425247220254515 / 1125899906842624)])]\<rparr>),
                 next_ref := 2,
                 rk := (\<lambda>n. word_of_nat ((n + 8) * 2654435761 + 3141592653))\<rparr>)"
  by (simp add: overPop_def inflate_def jitter_def setitem_def ensure_valid_index_def
      set_column_def copy_df_def alloc_def sample_state_def sample_catalog_def shape0_def
      rk_double_def rk_random_def sample_products)

section \<open>Properties of the duplication stage\<close>

text \<open>
  C1. For every catalog and every non-negative duplication count, the catalog left by the
  copy and the duplication loop of \<^verbatim>\<open>overPop\<close> has \<open>len(df) * 2^times\<close> rows.
\<close>

theorem inflate_length:
  "0 \<le> ntimes \<Longrightarrow> shape0 (deref (inflate df ntimes s)) = shape0 (heap s df) * 2 ^ nat ntimes"
  by (simp add: inflate_deref shape0_funpow)

theorem inflate_length_witness:
  "(0::int) \<le> 3 \<and> shape0 (deref (inflate 0 3 sample_state)) = 16"
  using inflate_length [of 3 0 sample_state]
  by (simp add: sample_state_def sample_catalog_def shape0_def)

text \<open>
  C7. With a duplication count of zero the duplication stage yields a frame equal to the
  input: the same index, columns and rows in the same order, hence the same length.
\<close>

theorem inflate_zero:
  "deref (inflate df 0 s) = heap s df
   \<and> rows_of (deref (inflate df 0 s)) = rows_of (heap s df)
   \<and> shape0 (deref (inflate df 0 s)) = shape0 (heap s df)"
  by (simp add: inflate_deref)

text \<open>
  C3. The duplication stage involves no randomness: it leaves the generator state as it
  found it, and run in any two states that hold the same input frame (whatever their
  generator states and other objects) with a non-negative count it yields identical frames.
\<close>

theorem inflate_deterministic:
  "0 \<le> ntimes \<Longrightarrow> heap t df = heap s df \<Longrightarrow>
   deref (inflate df ntimes t) = deref (inflate df ntimes s)
   \<and> rk (snd (inflate df ntimes s)) = rk s"
  by (simp add: inflate_deref inflate_rk)

theorem inflate_deterministic_witness:
  "(0::int) \<le> 1
   \<and> heap (sample_state\<lparr>next_ref := 5, rk := (\<lambda>n. 0)\<rparr>) 0 = heap sample_state 0
   \<and> deref (inflate 0 1 (sample_state\<lparr>next_ref := 5, rk := (\<lambda>n. 0)\<rparr>)) = deref (inflate 0 1 sample_state)
   \<and> rk (snd (inflate 0 1 sample_state)) = rk sample_state"
  using inflate_deterministic [of 1 "sample_state\<lparr>next_ref := 5, rk := (\<lambda>n. 0)\<rparr>" 0 sample_state]
  by simp

text \<open>
  C6. The duplication stage is append-only doubling. For an input frame with one cell per
  row in every column and a non-negative count: one more pass of the loop yields exactly
  the rows of the previous result followed by the same rows again, so the previous result
  is an unchanged prefix; the result is the input's rows repeated \<open>2^times\<close> times, so
  the input's rows are, in their order, a prefix of the result and every row of the result
  is a row of the input; and the column labels are those of the input.
\<close>

theorem inflate_append_only:
  "wf_frame (heap s df) \<Longrightarrow> 0 \<le> ntimes \<Longrightarrow>
   rows_of (deref (inflate df (ntimes + 1) s))
     = rows_of (deref (inflate df ntimes s)) @ rows_of (deref (inflate df ntimes s))
   \<and> rows_of (deref (inflate df ntimes s))
       = concat (replicate (2 ^ nat ntimes) (rows_of (heap s df)))
   \<and> prefix (rows_of (deref (inflate df ntimes s))) (rows_of (deref (inflate df (ntimes + 1) s)))
   \<and> prefix (rows_of (heap s df)) (rows_of (deref (inflate df ntimes s)))
   \<and> set (rows_of (deref (inflate df ntimes s))) \<subseteq> set (rows_of (heap s df))
   \<and> map fst (columns (deref (inflate df ntimes s))) = map fst (columns (heap s df))"
proof -
  assume wf: "wf_frame (heap s df)" and n: "0 \<le> ntimes"
  let ?cur = "(twice ^^ nat ntimes) (heap s df)"
  have step: "nat (ntimes + 1) = Suc (nat ntimes)" using n by simp
  have "rows_of (deref (inflate df (ntimes + 1) s)) = rows_of (twice ?cur)"
    by (simp add: inflate_deref step)
  also have "\<dots> = rows_of ?cur @ rows_of ?cur"
    unfolding twice_def [of ?cur] using wf by (intro rows_append_self wf_funpow)
  finally have double: "rows_of (deref (inflate df (ntimes + 1) s))
      = rows_of (deref (inflate df ntimes s)) @ rows_of (deref (inflate df ntimes s))"
    by (simp add: inflate_deref)
  have all: "rows_of (deref (inflate df ntimes s))
      = concat (replicate (2 ^ nat ntimes) (rows_of (heap s df)))"
    unfolding inflate_deref using wf by (rule rows_funpow)
  have pre_step: "prefix (rows_of (deref (inflate df ntimes s)))
      (rows_of (deref (inflate df (ntimes + 1) s)))"
    unfolding double by simp
  have pre_input: "prefix (rows_of (heap s df)) (rows_of (deref (inflate df ntimes s)))"
    unfolding all by (rule prefix_concat_replicate)
  have sub: "set (rows_of (deref (inflate df ntimes s))) \<subseteq> set (rows_of (heap s df))"
    unfolding inflate_deref using wf by (rule rows_funpow_subset)
  have labels: "map fst (columns (deref (inflate df ntimes s))) = map fst (columns (heap s df))"
    unfolding inflate_deref by (rule labels_funpow)
  from double all pre_step pre_input sub labels show ?thesis by blast
qed

theorem inflate_append_only_witness:
  "wf_frame (heap sample_state 0) \<and> (0::int) \<le> 1
   \<and> rows_of (deref (inflate 0 1 sample_state))
       = [[(''objid'', Obj ''a''), (''ra'', NaN)], [(''objid'', Obj ''b''), (''ra'', Float64 1)],
          [(''objid'', Obj ''a''), (''ra'', NaN)], [(''objid'', Obj ''b''), (''ra'', Float64 1)]]
   \<and> rows_of (deref (inflate 0 (1 + 1) sample_state))
       = [[(''objid'', Obj ''a''), (''ra'', NaN)], [(''objid'', Obj ''b''), (''ra'', Float64 1)],
          [(''objid'', Obj ''a''), (''ra'', NaN)], [(''objid'', Obj ''b''), (''ra'', Float64 1)],
          [(''objid'', Obj ''a''), (''ra'', NaN)], [(''objid'', Obj ''b''), (''ra'', Float64 1)],
          [(''objid'', Obj ''a''), (''ra'', NaN)], [(''objid'', Obj ''b''), (''ra'', Float64 1)]]
   \<and> prefix (rows_of (heap sample_state 0)) (rows_of (deref (inflate 0 1 sample_state)))
   \<and> map fst (columns (deref (inflate 0 1 sample_state))) = [''objid'', ''ra'']"
proof -
  have h: "wf_frame (heap sample_state 0)" by (simp add: sample_state_def wf_sample_catalog)
  have r: "rows_of (heap sample_state 0)
           = [[(''objid'', Obj ''a''), (''ra'', NaN)], [(''objid'', Obj ''b''), (''ra'', Float64 1)]]"
    by (simp add: sample_state_def sample_catalog_def rows_of_def row_at_def shape0_def upt_rec)
  have c: "map fst (columns (heap sample_state 0)) = [''objid'', ''ra'']"
    by (simp add: sample_state_def sample_catalog_def)
  have two: "replicate 2 x = [x, x]" for x :: "(string \<times> string cell) list list"
    by (simp add: numeral_2_eq_2)
  have n: "(0::int) \<le> 1" by simp
  from inflate_append_only [OF h n]
  have "rows_of (deref (inflate 0 (1 + 1) sample_state))
          = rows_of (deref (inflate 0 1 sample_state)) @ rows_of (deref (inflate 0 1 sample_state))"
    and "rows_of (deref (inflate 0 1 sample_state))
          = concat (replicate (2 ^ nat 1) (rows_of (heap sample_state 0)))"
    and "prefix (rows_of (heap sample_state 0)) (rows_of (deref (inflate 0 1 sample_state)))"
    and "map fst (columns (deref (inflate 0 1 sample_state)))
          = map fst (columns (heap sample_state 0))"
    by blast+
  then show ?thesis
    using h by (simp add: r c two)
qed

section \<open>Properties of the position assignment and of overPop\<close>


text \<open>
  C5. \<^verbatim>\<open>overPop\<close> does not change its input: it returns a different object, and the
  frame held by the input reference (index, columns, hence rows, length and any position
  columns) is the same after the call as before.
\<close>

theorem overPop_input_unchanged:
  "df < next_ref s \<Longrightarrow>
   \<exists>out. overPop df ntimes s = Inr out \<and> fst out \<noteq> df \<and> heap (snd out) df = heap s df"
proof -
  assume df: "df < next_ref s"
  obtain s' where out: "overPop df ntimes s = Inr (fst (inflate df ntimes s), s')"
    and hp: "heap s' = (heap (snd (inflate df ntimes s)))
           (fst (inflate df ntimes s) := assign_positions (deref (inflate df ntimes s)) (rk s))"
    using overPop_returns [of df ntimes s] by blast
  have fresh: "df < fst (inflate df ntimes s)"
    using df inflate_fresh [of s df ntimes] by simp
  then have "heap s' df = heap (snd (inflate df ntimes s)) df"
    by (simp add: hp)
  also have "\<dots> = heap s df"
    using df by (rule inflate_old_objects)
  finally have "heap s' df = heap s df" .
  with out fresh show ?thesis by auto
qed

theorem overPop_input_unchanged_witness:
  "(0::nat) < next_ref sample_state
   \<and> \<not> isl (overPop 0 2 sample_state)
   \<and> fst (projr (overPop 0 2 sample_state)) \<noteq> 0
   \<and> heap (snd (projr (overPop 0 2 sample_state))) 0 = sample_catalog"
proof -
  have h: "(0::nat) < next_ref sample_state" by (simp add: sample_state_def)
  from overPop_input_unchanged [OF h, of 2]
  obtain out where "overPop 0 2 sample_state = Inr out" "fst out \<noteq> 0" "heap (snd out) 0 = heap sample_state 0"
    by blast
  then show ?thesis using h by (simp add: sample_state_def)
qed



text \<open>
  C9. For a negative count \<^verbatim>\<open>overPop\<close> does not raise: the loop body never runs (the
  first stage is just the copy), the call behaves as with a count of zero, and it returns
  a catalog with exactly \<open>len(df)\<close> rows whose \<^verbatim>\<open>ra\<close> and \<^verbatim>\<open>dec\<close> columns are
  the fresh draws.
\<close>

theorem overPop_negative_times:
  "ntimes < 0 \<Longrightarrow>
   inflate df ntimes s = copy_df df s
   \<and> overPop df ntimes s = overPop df 0 s
   \<and> (\<exists>out. overPop df ntimes s = Inr out
         \<and> shape0 (deref out) = shape0 (heap s df)
         \<and> map_of (columns (deref out)) ''ra'' = Some (positions (shape0 (heap s df)) (rk s))
         \<and> map_of (columns (deref out)) ''dec''
             = Some (positions (shape0 (heap s df))
                       (snd (random_sample (shape0 (heap s df)) (rk s)))))"
proof -
  assume neg: "ntimes < 0"
  then have zero: "nat ntimes = 0" by simp
  have inf: "inflate df ntimes s = copy_df df s"
    by (simp add: inflate_def zero case_prod_beta)
  have same: "overPop df ntimes s = overPop df 0 s"
    by (simp add: overPop_def inflate_def zero)
  have mid: "deref (inflate df ntimes s) = heap s df"
    by (simp add: inflate_deref zero)
  obtain out where "overPop df ntimes s = Inr out"
    and "deref out = assign_positions (heap s df) (rk s)"
    using overPop_deref [of df ntimes s] by (auto simp: mid)
  then have "\<exists>out. overPop df ntimes s = Inr out
         \<and> shape0 (deref out) = shape0 (heap s df)
         \<and> map_of (columns (deref out)) ''ra'' = Some (positions (shape0 (heap s df)) (rk s))
         \<and> map_of (columns (deref out)) ''dec''
             = Some (positions (shape0 (heap s df))
                       (snd (random_sample (shape0 (heap s df)) (rk s))))"
    by (simp add: assign_positions_simps)
  with inf same show ?thesis by blast
qed

theorem overPop_negative_times_witness:
  "(- 1 :: int) < 0
   \<and> overPop 0 (- 1) sample_state =
     Inr (1, sample_state\<lparr>heap := (heap sample_state)(1 :=
                   \<lparr>index = [UserLabel 7, UserLabel 9],
                    columns = [(''objid'', [Obj ''a'', Obj ''b'']),
                               (''ra'', [Float64 (6176622479639399 / 562949953421312),
                                         Float64 (1021254913901679 / 70368744177664)]),
                               (''dec'', [Float64 (6876827365871141 / 2251799813685248),
                                          Float64 (7425247220254515 / 1125899906842624)])]\<rparr>),
                 next_ref := 2,
                 rk := (\<lambda>n. word_of_nat ((n + 8) * 2654435761 + 3141592653))\<rparr>)"
proof -
  have h: "(- 1 :: int) < 0" by simp
  from overPop_negative_times [OF h, of 0 sample_state]
  have "overPop 0 (- 1) sample_state = overPop 0 0 sample_state" by blast
  then show ?thesis by (simp add: sample_run)
qed

text \<open>
  C2 as stated, that a negative count makes \<^verbatim>\<open>overPop\<close> fail with an invalid-argument
  error and return no catalog, is false: with a count of \<open>-1\<close> on the sample catalog
  the call returns a catalog of two rows.
\<close>

theorem overPop_negative_counterexample:
  "(- 1 :: int) < 0
   \<and> overPop 0 (- 1) sample_state \<noteq> Inl InvalidArgument
   \<and> \<not> isl (overPop 0 (- 1) sample_state)
   \<and> shape0 (deref (projr (overPop 0 (- 1) sample_state))) = 2"
proof -
  have "overPop 0 (- 1) sample_state = overPop 0 0 sample_state"
    by (simp add: overPop_def inflate_def)
  then show ?thesis
    by (simp add: sample_run deref_def shape0_def)
qed

text \<open>
  C2, amended. For every catalog and every negative count, \<^verbatim>\<open>overPop\<close> raises no
  error of any kind: it returns a catalog with \<open>len(df)\<close> rows.
\<close>

theorem overPop_negative_no_error:
  "ntimes < 0 \<Longrightarrow>
   overPop df ntimes s \<noteq> Inl e
   \<and> (\<exists>out. overPop df ntimes s = Inr out \<and> shape0 (deref out) = shape0 (heap s df))"
proof -
  assume "ntimes < 0"
  then have mid: "deref (inflate df ntimes s) = heap s df"
    by (simp add: inflate_deref)
  obtain out where "overPop df ntimes s = Inr out"
    and "deref out = assign_positions (heap s df) (rk s)"
    using overPop_deref [of df ntimes s] by (auto simp: mid)
  then show ?thesis by (simp add: assign_positions_simps)
qed

theorem overPop_negative_no_error_witness:
  "(- 3 :: int) < 0
   \<and> overPop 0 (- 3) sample_state \<noteq> Inl InvalidArgument
   \<and> overPop 0 (- 3) sample_state \<noteq> Inl ValueError
   \<and> \<not> isl (overPop 0 (- 3) sample_state)
   \<and> shape0 (deref (projr (overPop 0 (- 3) sample_state))) = 2"
proof -
  have h: "(- 3 :: int) < 0" by simp
  from overPop_negative_no_error [OF h, of 0 sample_state]
  have "\<And>e. overPop 0 (- 3) sample_state \<noteq> Inl e"
    and "\<exists>out. overPop 0 (- 3) sample_state = Inr out
           \<and> shape0 (deref out) = shape0 (heap sample_state 0)"
    by blast+
  then show ?thesis
    by (auto simp: sample_state_def sample_catalog_def shape0_def)
qed

section \<open>The exported loader function\<close>

text \<open>
  C10. The exported \<^verbatim>\<open>load_ipython_extension\<close> is a no-op: it declares no parameters,
  and a call with any arguments in any state returns \<^verbatim>\<open>undefined\<close> and leaves the
  state as it was.
\<close>

theorem load_ipython_extension_noop:
  "params load_ipython_extension = []
   \<and> js_call load_ipython_extension args st = (Undefined, st)"
  by (simp add: load_ipython_extension_def js_call_def)

end
